theory Spec2Isabelle
  imports Main "HOL-Library.Word"
begin

unbundle bit_operations_syntax

section \<open>Keys, entries and caller memory\<close>

text \<open>
  The hash stores untyped pointers (\<^verbatim>\<open>void *\<close>).  A pointer is an address; address 0 is
  the null pointer.  One table slot holds a key pointer and, for a map, a value pointer; for
  a set the value word does not exist and is kept at \<open>NULL\<close>.  A slot is empty iff its key
  pointer is null.

  Keys are hashed and compared by the bytes they point to.  These bytes belong to the
  caller and are never written by the hash, so they are a fixed function from an address to
  the byte buffer found there.  A string key is read up to its terminating zero byte; the
  end of the buffer also ends the read.
\<close>

type_synonym ptr = nat

abbreviation NULL :: ptr where
  "NULL \<equiv> 0"

type_synonym entry = "ptr \<times> ptr"

type_synonym memory = "ptr \<Rightarrow> 8 word list"

definition CL_HASH_MIN_ORDER :: nat where
  "CL_HASH_MIN_ORDER = 6"

definition CL_HASH_MAX_ORDER :: nat where
  "CL_HASH_MAX_ORDER = 31"

record cl_rhash_table =
  table :: "entry list"
  n_entries :: nat
  n_peek :: nat
  n_bytes :: nat
  order :: nat
  key_bytes :: nat

section \<open>Hash functions\<close>

text \<open>\<^verbatim>\<open>hash = ((hash << 5) + hash) + c\<close> on \<^verbatim>\<open>uint32_t\<close>, for each byte before the zero byte.\<close>

fun cl_rhash_table_hash_str_loop :: "32 word \<Rightarrow> 8 word list \<Rightarrow> 32 word" where
  "cl_rhash_table_hash_str_loop hash [] = hash"
| "cl_rhash_table_hash_str_loop hash (c # str) =
     (if c = 0 then hash
      else cl_rhash_table_hash_str_loop ((push_bit 5 hash + hash) + ucast c) str)"

definition cl_rhash_table_hash_str :: "8 word list \<Rightarrow> 32 word" where
  "cl_rhash_table_hash_str key = cl_rhash_table_hash_str_loop 5381 key"

text \<open>The same recurrence over the first \<open>key_bytes\<close> bytes, whatever they are.\<close>

fun cl_rhash_table_hash_fixed_loop :: "nat \<Rightarrow> nat \<Rightarrow> 32 word \<Rightarrow> 8 word list \<Rightarrow> 32 word" where
  "cl_rhash_table_hash_fixed_loop kb i hash [] = hash"
| "cl_rhash_table_hash_fixed_loop kb i hash (c # ptr) =
     (if i < kb
      then cl_rhash_table_hash_fixed_loop kb (i + 1) ((push_bit 5 hash + hash) + ucast c) ptr
      else hash)"

definition cl_rhash_table_hash_fixed :: "8 word list \<Rightarrow> nat \<Rightarrow> 32 word" where
  "cl_rhash_table_hash_fixed key kb = cl_rhash_table_hash_fixed_loop kb 0 5381 key"

definition cl_rhash_table_hash :: "memory \<Rightarrow> cl_rhash_table \<Rightarrow> entry \<Rightarrow> nat" where
  "cl_rhash_table_hash m tbl ent =
     unat (if key_bytes tbl \<noteq> 0
           then cl_rhash_table_hash_fixed (m (fst ent)) (key_bytes tbl)
           else cl_rhash_table_hash_str (m (fst ent)))"


section \<open>Probe table\<close>

text \<open>\<^verbatim>\<open>1 << order\<close>, stored in a \<^verbatim>\<open>uint32_t\<close>.\<close>

definition cl_rhash_table_size :: "cl_rhash_table \<Rightarrow> nat" where
  "cl_rhash_table_size tbl = 2 ^ order tbl mod 2 ^ 32"

text \<open>
  A pointer to a table entry is the index of its slot.  The source asserts
  \<open>slot < size\<close> here; every caller passes a masked slot or a loop index below the size
  (lemma \<open>cl_rhash_table_slot_less\<close> below).
\<close>

definition cl_rhash_table_ptr :: "cl_rhash_table \<Rightarrow> nat \<Rightarrow> entry" where
  "cl_rhash_table_ptr tbl slot = table tbl ! slot"

definition cl_rhash_table_slot :: "cl_rhash_table \<Rightarrow> nat \<Rightarrow> nat \<Rightarrow> nat" where
  "cl_rhash_table_slot tbl hcode pr =
     (let mask = (cl_rhash_table_size tbl + 2 ^ 32 - 1) mod 2 ^ 32
      in ((hcode + pr) mod 2 ^ 32) AND mask)"

definition cl_rhash_table_cost_slot :: "cl_rhash_table \<Rightarrow> nat \<Rightarrow> nat \<Rightarrow> nat" where
  "cl_rhash_table_cost_slot tbl slot o_slot =
     (if slot \<ge> o_slot then slot - o_slot
      else (cl_rhash_table_size tbl + slot - o_slot) mod 2 ^ 32)"

definition cl_rhash_table_cost :: "memory \<Rightarrow> cl_rhash_table \<Rightarrow> nat \<Rightarrow> nat" where
  "cl_rhash_table_cost m tbl slot =
     (let ent = cl_rhash_table_ptr tbl slot;
          hcode = cl_rhash_table_hash m tbl ent;
          o_slot = cl_rhash_table_slot tbl hcode 0
      in cl_rhash_table_cost_slot tbl slot o_slot)"

text \<open>\<^verbatim>\<open>calloc\<close>: a fresh zeroed array of \<open>size\<close> slots.\<close>

definition cl_rhash_table_alloc :: "cl_rhash_table \<Rightarrow> cl_rhash_table" where
  "cl_rhash_table_alloc tbl = tbl\<lparr>table := replicate (cl_rhash_table_size tbl) (NULL, NULL)\<rparr>"

definition cl_rhash_table_zero :: "cl_rhash_table \<Rightarrow> cl_rhash_table" where
  "cl_rhash_table_zero tbl = tbl\<lparr>table := replicate (cl_rhash_table_size tbl) (NULL, NULL)\<rparr>"

definition cl_rhash_table_init :: "nat \<Rightarrow> nat \<Rightarrow> cl_rhash_table" where
  "cl_rhash_table_init kb nb =
     (let tbl = \<lparr>table = [], n_entries = 0, n_peek = 0, n_bytes = 0,
                  order = CL_HASH_MIN_ORDER, key_bytes = 0\<rparr>;
          tbl = tbl\<lparr>n_entries := 0\<rparr>;
          tbl = tbl\<lparr>n_peek := cl_rhash_table_size tbl\<rparr>;
          tbl = tbl\<lparr>key_bytes := kb\<rparr>;
          tbl = tbl\<lparr>n_bytes := nb\<rparr>
      in cl_rhash_table_alloc tbl)"

text \<open>Clone: the destination must be empty (asserted); it takes over every field of the source.\<close>

definition cl_rhash_table_clone :: "cl_rhash_table \<Rightarrow> cl_rhash_table \<Rightarrow> cl_rhash_table option" where
  "cl_rhash_table_clone tbl src =
     (if n_entries tbl = 0
      then Some (tbl\<lparr>table := table src, n_entries := n_entries src, n_peek := n_peek src,
                      n_bytes := n_bytes src, order := order src, key_bytes := key_bytes src\<rparr>)
      else None)"

definition cl_rhash_table_entry_update :: "cl_rhash_table \<Rightarrow> nat \<Rightarrow> cl_rhash_table" where
  "cl_rhash_table_entry_update tbl slot =
     (if slot < n_peek tbl then tbl\<lparr>n_peek := slot\<rparr> else tbl)"

text \<open>Clear: the peek slot is set from the size before the order is reset.\<close>

definition cl_rhash_table_clear :: "cl_rhash_table \<Rightarrow> cl_rhash_table" where
  "cl_rhash_table_clear tbl =
     (let tbl = tbl\<lparr>n_entries := 0\<rparr>;
          tbl = tbl\<lparr>n_peek := cl_rhash_table_size tbl\<rparr>
      in if order tbl \<noteq> CL_HASH_MIN_ORDER
         then cl_rhash_table_alloc (tbl\<lparr>order := CL_HASH_MIN_ORDER\<rparr>)
         else cl_rhash_table_zero tbl)"

definition cl_rhash_table_slimit :: "cl_rhash_table \<Rightarrow> nat" where
  "cl_rhash_table_slimit tbl =
     (if order tbl > CL_HASH_MIN_ORDER then cl_rhash_table_size tbl div 4 else 0)"

definition cl_rhash_table_limit :: "cl_rhash_table \<Rightarrow> nat" where
  "cl_rhash_table_limit tbl =
     (let n_size = cl_rhash_table_size tbl in n_size - (n_size div 4))"

definition cl_rhash_table_entry_exists :: "entry \<Rightarrow> bool" where
  "cl_rhash_table_entry_exists ent = (fst ent \<noteq> NULL)"

text \<open>
  \<^verbatim>\<open>memcpy(dst, src, n_bytes)\<close> copies one whole entry into a slot.
\<close>

definition cl_rhash_table_entry_copy :: "cl_rhash_table \<Rightarrow> nat \<Rightarrow> entry \<Rightarrow> cl_rhash_table" where
  "cl_rhash_table_entry_copy tbl dst src = tbl\<lparr>table := (table tbl)[dst := src]\<rparr>"

text \<open>
  \<^verbatim>\<open>memcmp(k1, k2, key_bytes) == 0\<close> compares the first \<open>key_bytes\<close> bytes;
  \<^verbatim>\<open>strcmp(k1, k2) == 0\<close> compares the bytes before the first zero byte.
\<close>

definition cl_rhash_table_key_equals :: "memory \<Rightarrow> cl_rhash_table \<Rightarrow> entry \<Rightarrow> entry \<Rightarrow> bool" where
  "cl_rhash_table_key_equals m tbl key1 key2 =
     (if key_bytes tbl \<noteq> 0
      then take (key_bytes tbl) (m (fst key1)) = take (key_bytes tbl) (m (fst key2))
      else takeWhile (\<lambda>c. c \<noteq> 0) (m (fst key1)) = takeWhile (\<lambda>c. c \<noteq> 0) (m (fst key2)))"

text \<open>Peek: scan from the peek slot for an occupied slot and remember where it was found.\<close>

function cl_rhash_table_peek_entry_loop :: "cl_rhash_table \<Rightarrow> nat \<Rightarrow> nat option \<times> cl_rhash_table" where
  "cl_rhash_table_peek_entry_loop tbl pr =
     (if pr < cl_rhash_table_size tbl
      then (if cl_rhash_table_entry_exists (cl_rhash_table_ptr tbl pr)
            then (Some pr, tbl\<lparr>n_peek := pr\<rparr>)
            else cl_rhash_table_peek_entry_loop tbl (pr + 1))
      else (None, tbl))"
  by pat_completeness auto
termination
  by (relation "measure (\<lambda>(tbl, pr). cl_rhash_table_size tbl - pr)") auto

declare cl_rhash_table_peek_entry_loop.simps [simp del]

definition cl_rhash_table_peek_entry :: "cl_rhash_table \<Rightarrow> nat option \<times> cl_rhash_table" where
  "cl_rhash_table_peek_entry tbl = cl_rhash_table_peek_entry_loop tbl (n_peek tbl)"

definition cl_rhash_table_peek :: "cl_rhash_table \<Rightarrow> nat option \<times> cl_rhash_table" where
  "cl_rhash_table_peek tbl =
     (if n_entries tbl > 0 then cl_rhash_table_peek_entry tbl else (None, tbl))"

text \<open>
  Lookup: linear probing from the key's slot; stop at an empty slot, at the key, or at an
  entry whose cost is below the probe length.  The result is the slot found.
\<close>

function cl_rhash_table_entry_loop ::
  "memory \<Rightarrow> cl_rhash_table \<Rightarrow> entry \<Rightarrow> nat \<Rightarrow> nat \<Rightarrow> nat option" where
  "cl_rhash_table_entry_loop m tbl key hcode pr =
     (if pr < cl_rhash_table_size tbl
      then (let slot = cl_rhash_table_slot tbl hcode pr;
                e = cl_rhash_table_ptr tbl slot
            in if \<not> cl_rhash_table_entry_exists e then None
               else if cl_rhash_table_key_equals m tbl key e then Some slot
               else if pr > cl_rhash_table_cost m tbl slot then None
               else cl_rhash_table_entry_loop m tbl key hcode (pr + 1))
      else None)"
  by pat_completeness auto
termination
  by (relation "measure (\<lambda>(m, tbl, key, hcode, pr). cl_rhash_table_size tbl - pr)") auto

declare cl_rhash_table_entry_loop.simps [simp del]

definition cl_rhash_table_entry :: "memory \<Rightarrow> cl_rhash_table \<Rightarrow> entry \<Rightarrow> nat option" where
  "cl_rhash_table_entry m tbl key =
     cl_rhash_table_entry_loop m tbl key (cl_rhash_table_hash m tbl key) 0"

definition cl_rhash_table_contains :: "memory \<Rightarrow> cl_rhash_table \<Rightarrow> ptr \<Rightarrow> bool" where
  "cl_rhash_table_contains m tbl key = (cl_rhash_table_entry m tbl (key, NULL) \<noteq> None)"

function cl_rhash_table_find_empty_loop :: "cl_rhash_table \<Rightarrow> nat \<Rightarrow> nat \<Rightarrow> nat" where
  "cl_rhash_table_find_empty_loop tbl hcode pr =
     (if pr < cl_rhash_table_size tbl
      then (if \<not> cl_rhash_table_entry_exists
                   (cl_rhash_table_ptr tbl (cl_rhash_table_slot tbl hcode pr))
            then pr
            else cl_rhash_table_find_empty_loop tbl hcode (pr + 1))
      else 0)"
  by pat_completeness auto
termination
  by (relation "measure (\<lambda>(tbl, hcode, pr). cl_rhash_table_size tbl - pr)") auto

declare cl_rhash_table_find_empty_loop.simps [simp del]

definition cl_rhash_table_find_empty :: "cl_rhash_table \<Rightarrow> nat \<Rightarrow> nat \<Rightarrow> nat" where
  "cl_rhash_table_find_empty tbl hcode ipr = cl_rhash_table_find_empty_loop tbl hcode ipr"

text \<open>
  Shift forward: \<^verbatim>\<open>for (pr = shift; pr >= ipr; pr--)\<close> on \<^verbatim>\<open>uint32_t\<close>.  With
  \<open>ipr = 0\<close> the condition can never fail (the decrement of 0 wraps), so the loop does not
  return: \<open>None\<close>.  \<open>p_ent\<close> is the slot visited by the previous round.
\<close>

function cl_rhash_table_shift_forward_loop ::
  "cl_rhash_table \<Rightarrow> nat \<Rightarrow> nat \<Rightarrow> nat option \<Rightarrow> nat \<Rightarrow> cl_rhash_table option" where
  "cl_rhash_table_shift_forward_loop tbl hcode ipr p_ent pr =
     (if pr \<ge> ipr
      then (let slot = cl_rhash_table_slot tbl hcode pr;
                ent = cl_rhash_table_ptr tbl slot;
                tbl = (case p_ent of None \<Rightarrow> tbl
                       | Some p \<Rightarrow> cl_rhash_table_entry_copy tbl p ent);
                tbl = cl_rhash_table_entry_update tbl slot
            in if pr = 0 then None
               else cl_rhash_table_shift_forward_loop tbl hcode ipr (Some slot) (pr - 1))
      else Some tbl)"
  by pat_completeness auto
termination
  by (relation "measure (\<lambda>(tbl, hcode, ipr, p_ent, pr). pr)") auto

declare cl_rhash_table_shift_forward_loop.simps [simp del]

definition cl_rhash_table_shift_forward ::
  "cl_rhash_table \<Rightarrow> nat \<Rightarrow> nat \<Rightarrow> cl_rhash_table option" where
  "cl_rhash_table_shift_forward tbl hcode ipr =
     (let shift = cl_rhash_table_find_empty tbl hcode ipr
      in cl_rhash_table_shift_forward_loop tbl hcode ipr None shift)"

text \<open>
  Insert.  The result is the previous key equal to the entry's key (or \<open>NULL\<close>) and the new
  table; \<open>None\<close> when an assertion fails (\<open>n_entries < size\<close> on entry, or the probe loop
  running out) or the call does not return.
\<close>

function cl_rhash_table_insert_loop ::
  "memory \<Rightarrow> cl_rhash_table \<Rightarrow> entry \<Rightarrow> nat \<Rightarrow> nat \<Rightarrow> (ptr \<times> cl_rhash_table) option" where
  "cl_rhash_table_insert_loop m tbl ent hcode pr =
     (if pr < cl_rhash_table_size tbl
      then (let slot = cl_rhash_table_slot tbl hcode pr;
                e = cl_rhash_table_ptr tbl slot
            in if \<not> cl_rhash_table_entry_exists e
               then (let tbl = cl_rhash_table_entry_copy tbl slot ent;
                         tbl = tbl\<lparr>n_entries := n_entries tbl + 1\<rparr>;
                         tbl = cl_rhash_table_entry_update tbl slot
                     in Some (NULL, tbl))
               else if cl_rhash_table_key_equals m tbl ent e
               then (let key = fst e;
                         tbl = cl_rhash_table_entry_copy tbl slot ent;
                         tbl = cl_rhash_table_entry_update tbl slot
                     in Some (key, tbl))
               else if pr > cl_rhash_table_cost m tbl slot
               then (case cl_rhash_table_shift_forward tbl hcode pr of
                       None \<Rightarrow> None
                     | Some tbl \<Rightarrow>
                         (let tbl = cl_rhash_table_entry_copy tbl slot ent;
                              tbl = tbl\<lparr>n_entries := n_entries tbl + 1\<rparr>;
                              tbl = cl_rhash_table_entry_update tbl slot
                          in Some (NULL, tbl)))
               else cl_rhash_table_insert_loop m tbl ent hcode (pr + 1))
      else None)"
  by pat_completeness auto
termination
  by (relation "measure (\<lambda>(m, tbl, ent, hcode, pr). cl_rhash_table_size tbl - pr)") auto

declare cl_rhash_table_insert_loop.simps [simp del]

definition cl_rhash_table_insert ::
  "memory \<Rightarrow> cl_rhash_table \<Rightarrow> entry \<Rightarrow> (ptr \<times> cl_rhash_table) option" where
  "cl_rhash_table_insert m tbl ent =
     (let n_size = cl_rhash_table_size tbl;
          hcode = cl_rhash_table_hash m tbl ent
      in if n_entries tbl < n_size
         then cl_rhash_table_insert_loop m tbl ent hcode 0
         else None)"

text \<open>
  Shift backward from the slot \<open>ent\<close> of a removed entry: copy each following entry one slot
  back until an empty slot or an entry of cost 0, then zero the last slot vacated.
\<close>

function cl_rhash_table_shift_backward_loop ::
  "memory \<Rightarrow> cl_rhash_table \<Rightarrow> nat \<Rightarrow> nat \<Rightarrow> nat \<Rightarrow> cl_rhash_table \<times> nat" where
  "cl_rhash_table_shift_backward_loop m tbl hcode ent pr =
     (if pr < cl_rhash_table_size tbl
      then (let slot = cl_rhash_table_slot tbl hcode pr;
                e = cl_rhash_table_ptr tbl slot
            in if \<not> cl_rhash_table_entry_exists e then (tbl, ent)
               else if cl_rhash_table_cost m tbl slot = 0 then (tbl, ent)
               else cl_rhash_table_shift_backward_loop m
                      (cl_rhash_table_entry_copy tbl ent e) hcode slot (pr + 1))
      else (tbl, ent))"
  by pat_completeness auto
termination
  by (relation "measure (\<lambda>(m, tbl, hcode, ent, pr). cl_rhash_table_size tbl - pr)")
     (auto simp: cl_rhash_table_entry_copy_def cl_rhash_table_size_def)

declare cl_rhash_table_shift_backward_loop.simps [simp del]

definition cl_rhash_table_shift_backward ::
  "memory \<Rightarrow> cl_rhash_table \<Rightarrow> nat \<Rightarrow> nat \<Rightarrow> cl_rhash_table" where
  "cl_rhash_table_shift_backward m tbl ent ipr =
     (let hcode = cl_rhash_table_hash m tbl (cl_rhash_table_ptr tbl ent);
          (tbl, ent) = cl_rhash_table_shift_backward_loop m tbl hcode ent (ipr + 1)
      in cl_rhash_table_entry_copy tbl ent (NULL, NULL))"

function cl_rhash_table_remove_loop ::
  "memory \<Rightarrow> cl_rhash_table \<Rightarrow> entry \<Rightarrow> nat \<Rightarrow> nat \<Rightarrow> ptr \<times> cl_rhash_table" where
  "cl_rhash_table_remove_loop m tbl ent hcode pr =
     (if pr < cl_rhash_table_size tbl
      then (let slot = cl_rhash_table_slot tbl hcode pr;
                e = cl_rhash_table_ptr tbl slot
            in if \<not> cl_rhash_table_entry_exists e then (NULL, tbl)
               else if cl_rhash_table_key_equals m tbl ent e
               then (let key = fst e;
                         tbl = tbl\<lparr>n_entries := n_entries tbl - 1\<rparr>;
                         tbl = cl_rhash_table_shift_backward m tbl slot pr;
                         tbl = cl_rhash_table_entry_update tbl slot
                     in (key, tbl))
               else cl_rhash_table_remove_loop m tbl ent hcode (pr + 1))
      else (NULL, tbl))"
  by pat_completeness auto
termination
  by (relation "measure (\<lambda>(m, tbl, ent, hcode, pr). cl_rhash_table_size tbl - pr)") auto

declare cl_rhash_table_remove_loop.simps [simp del]

definition cl_rhash_table_remove ::
  "memory \<Rightarrow> cl_rhash_table \<Rightarrow> entry \<Rightarrow> ptr \<times> cl_rhash_table" where
  "cl_rhash_table_remove m tbl ent =
     (if n_entries tbl = 0 then (NULL, tbl)
      else cl_rhash_table_remove_loop m tbl ent (cl_rhash_table_hash m tbl ent) 0)"


section \<open>Dual-table hash\<close>

text \<open>
  The iterator pool is left out: it only hands out iterator blocks.  \<open>n_edit\<close> is the
  edit version of a debug build, a \<^verbatim>\<open>uint32_t\<close>.
\<close>

record cl_rhash =
  h_lo :: cl_rhash_table
  h_hi :: cl_rhash_table
  is_map :: bool
  n_edit :: nat

text \<open>Slots are one pointer wide for a set and two for a map (pointers of 8 bytes).\<close>

definition cl_rhash_create :: "nat \<Rightarrow> bool \<Rightarrow> cl_rhash" where
  "cl_rhash_create kb im =
     (let nb = (if im then 8 * 2 else 8)
      in \<lparr>h_lo = cl_rhash_table_init kb nb, h_hi = cl_rhash_table_init kb nb,
          is_map = im, n_edit = 0\<rparr>)"

definition cl_rhash_create_set :: "nat \<Rightarrow> cl_rhash" where
  "cl_rhash_create_set kb = cl_rhash_create kb False"

definition cl_rhash_create_map :: "nat \<Rightarrow> cl_rhash" where
  "cl_rhash_create_map kb = cl_rhash_create kb True"

text \<open>\<open>None\<close>: the assertion that both tables have the same slot width fails.\<close>

definition cl_rhash_is_map :: "cl_rhash \<Rightarrow> bool option" where
  "cl_rhash_is_map hash =
     (if n_bytes (h_lo hash) = n_bytes (h_hi hash) then Some (is_map hash) else None)"

definition cl_rhash_edit :: "cl_rhash \<Rightarrow> cl_rhash" where
  "cl_rhash_edit hash = hash\<lparr>n_edit := (n_edit hash + 1) mod 2 ^ 32\<rparr>"

definition cl_rhash_count :: "cl_rhash \<Rightarrow> nat" where
  "cl_rhash_count hash = (n_entries (h_lo hash) + n_entries (h_hi hash)) mod 2 ^ 32"

definition cl_rhash_contains :: "memory \<Rightarrow> cl_rhash \<Rightarrow> ptr \<Rightarrow> bool" where
  "cl_rhash_contains m hash key =
     (cl_rhash_table_contains m (h_lo hash) key \<or> cl_rhash_table_contains m (h_hi hash) key)"

definition cl_rhash_peek :: "cl_rhash \<Rightarrow> ptr \<times> cl_rhash" where
  "cl_rhash_peek hash =
     (case cl_rhash_table_peek (h_lo hash) of
        (Some ent, lo) \<Rightarrow> (fst (cl_rhash_table_ptr lo ent), hash\<lparr>h_lo := lo\<rparr>)
      | (None, lo) \<Rightarrow>
          (case cl_rhash_table_peek (h_hi hash) of
             (Some ent, hi) \<Rightarrow> (fst (cl_rhash_table_ptr hi ent), hash\<lparr>h_lo := lo, h_hi := hi\<rparr>)
           | (None, hi) \<Rightarrow> (NULL, hash\<lparr>h_lo := lo, h_hi := hi\<rparr>)))"

definition cl_rhash_get :: "memory \<Rightarrow> cl_rhash \<Rightarrow> ptr \<Rightarrow> ptr option" where
  "cl_rhash_get m hash key =
     (case cl_rhash_is_map hash of
        None \<Rightarrow> None
      | Some im \<Rightarrow>
          if \<not> im then Some NULL
          else (case cl_rhash_table_entry m (h_lo hash) (key, NULL) of
                  Some ent \<Rightarrow> Some (snd (cl_rhash_table_ptr (h_lo hash) ent))
                | None \<Rightarrow>
                    (case cl_rhash_table_entry m (h_hi hash) (key, NULL) of
                       Some ent \<Rightarrow> Some (snd (cl_rhash_table_ptr (h_hi hash) ent))
                     | None \<Rightarrow> Some NULL)))"

text \<open>
  The counts are read into \<^verbatim>\<open>int\<close> variables of 32 bits.  \<open>int32\<close> is the value an
  \<^verbatim>\<open>int\<close> takes: a \<^verbatim>\<open>uint32_t\<close> from \<open>2 ^ 31\<close> on reads as a negative number, and
  the arithmetic on \<^verbatim>\<open>int\<close> is taken to wrap around.
\<close>

definition int32 :: "int \<Rightarrow> int" where
  "int32 i = (i + 2 ^ 31) mod 2 ^ 32 - 2 ^ 31"

definition cl_rhash_should_move_higher :: "cl_rhash \<Rightarrow> bool" where
  "cl_rhash_should_move_higher hash =
     (let n_lo = int32 (int (n_entries (h_lo hash)));
          n_hi = int32 (int (n_entries (h_hi hash)));
          n_thresh = int32 (int (cl_rhash_table_limit (h_hi hash)))
      in n_lo > 0 \<and> n_hi \<ge> int32 (n_thresh - int32 (n_lo * 2)))"

definition cl_rhash_move_higher :: "memory \<Rightarrow> cl_rhash \<Rightarrow> cl_rhash option" where
  "cl_rhash_move_higher m hash =
     (case cl_rhash_table_peek (h_lo hash) of
        (None, lo) \<Rightarrow> Some (hash\<lparr>h_lo := lo\<rparr>)
      | (Some ent, lo) \<Rightarrow>
          (let tent = cl_rhash_table_ptr lo ent;
               (key, lo) = cl_rhash_table_remove m lo tent
           in if key \<noteq> NULL
              then (case cl_rhash_table_insert m (h_hi hash) tent of
                      None \<Rightarrow> None
                    | Some (k, hi) \<Rightarrow> Some (hash\<lparr>h_lo := lo, h_hi := hi\<rparr>))
              else Some (hash\<lparr>h_lo := lo\<rparr>)))"

definition cl_rhash_check_move_higher :: "memory \<Rightarrow> cl_rhash \<Rightarrow> cl_rhash option" where
  "cl_rhash_check_move_higher m hash =
     (if cl_rhash_should_move_higher hash then cl_rhash_move_higher m hash else Some hash)"

definition cl_rhash_should_expand :: "cl_rhash \<Rightarrow> bool" where
  "cl_rhash_should_expand hash =
     (order (h_hi hash) < CL_HASH_MAX_ORDER \<and>
      n_entries (h_lo hash) = 0 \<and>
      n_entries (h_hi hash) \<ge> cl_rhash_table_limit (h_hi hash))"

text \<open>\<open>order\<close> is a \<^verbatim>\<open>uint16_t\<close>.\<close>

definition cl_rhash_expand :: "cl_rhash \<Rightarrow> cl_rhash option" where
  "cl_rhash_expand hash =
     (case cl_rhash_table_clone (h_lo hash) (h_hi hash) of
        None \<Rightarrow> None
      | Some lo \<Rightarrow>
          (let hi = h_hi hash;
               hi = hi\<lparr>order := (order hi + 1) mod 2 ^ 16\<rparr>;
               hi = hi\<lparr>n_entries := 0\<rparr>;
               hi = hi\<lparr>n_peek := cl_rhash_table_size hi\<rparr>;
               hi = cl_rhash_table_alloc hi
           in Some (hash\<lparr>h_lo := lo, h_hi := hi\<rparr>)))"

definition cl_rhash_check_expand :: "cl_rhash \<Rightarrow> cl_rhash option" where
  "cl_rhash_check_expand hash =
     (if cl_rhash_should_expand hash then cl_rhash_expand hash else Some hash)"

definition cl_rhash_insert :: "memory \<Rightarrow> cl_rhash \<Rightarrow> entry \<Rightarrow> (ptr \<times> cl_rhash) option" where
  "cl_rhash_insert m hash ent =
     (case cl_rhash_table_insert m (h_hi hash) ent of
        None \<Rightarrow> None
      | Some (key, hi) \<Rightarrow>
          (let hash = hash\<lparr>h_hi := hi\<rparr>
           in if key = NULL
              then (let (key, lo) = cl_rhash_table_remove m (h_lo hash) ent;
                        hash = hash\<lparr>h_lo := lo\<rparr>
                    in if key = NULL
                       then (case cl_rhash_check_move_higher m hash of
                               None \<Rightarrow> None
                             | Some hash \<Rightarrow>
                                 (case cl_rhash_check_expand hash of
                                    None \<Rightarrow> None
                                  | Some hash \<Rightarrow> Some (key, cl_rhash_edit hash)))
                       else Some (key, cl_rhash_edit hash))
              else Some (key, cl_rhash_edit hash)))"

definition cl_rhash_add :: "memory \<Rightarrow> cl_rhash \<Rightarrow> ptr \<Rightarrow> (ptr \<times> cl_rhash) option" where
  "cl_rhash_add m hash key =
     (case cl_rhash_is_map hash of
        None \<Rightarrow> None
      | Some im \<Rightarrow> if im then Some (key, hash) else cl_rhash_insert m hash (key, NULL))"

definition cl_rhash_put :: "memory \<Rightarrow> cl_rhash \<Rightarrow> ptr \<Rightarrow> ptr \<Rightarrow> (ptr \<times> cl_rhash) option" where
  "cl_rhash_put m hash key val =
     (case cl_rhash_is_map hash of
        None \<Rightarrow> None
      | Some im \<Rightarrow> if \<not> im then Some (NULL, hash) else cl_rhash_insert m hash (key, val))"

definition cl_rhash_should_move_lower :: "cl_rhash \<Rightarrow> bool" where
  "cl_rhash_should_move_lower hash =
     (let n_hi = int32 (int (n_entries (h_hi hash)));
          n_thresh = int32 (int (cl_rhash_table_slimit (h_hi hash)))
      in n_hi > 0 \<and> n_thresh > 0)"

definition cl_rhash_move_lower :: "memory \<Rightarrow> cl_rhash \<Rightarrow> cl_rhash option" where
  "cl_rhash_move_lower m hash =
     (case cl_rhash_table_peek (h_hi hash) of
        (None, hi) \<Rightarrow> Some (hash\<lparr>h_hi := hi\<rparr>)
      | (Some ent, hi) \<Rightarrow>
          (let tent = cl_rhash_table_ptr hi ent;
               (key, hi) = cl_rhash_table_remove m hi tent
           in if key \<noteq> NULL
              then (case cl_rhash_table_insert m (h_lo hash) tent of
                      None \<Rightarrow> None
                    | Some (k, lo) \<Rightarrow> Some (hash\<lparr>h_lo := lo, h_hi := hi\<rparr>))
              else Some (hash\<lparr>h_hi := hi\<rparr>)))"

definition cl_rhash_check_move_lower :: "memory \<Rightarrow> cl_rhash \<Rightarrow> cl_rhash option" where
  "cl_rhash_check_move_lower m hash =
     (if cl_rhash_should_move_lower hash then cl_rhash_move_lower m hash else Some hash)"

definition cl_rhash_should_shrink :: "cl_rhash \<Rightarrow> bool" where
  "cl_rhash_should_shrink hash =
     (order (h_hi hash) > CL_HASH_MIN_ORDER \<and>
      n_entries (h_hi hash) = 0 \<and>
      n_entries (h_lo hash) \<le> cl_rhash_table_slimit (h_hi hash))"

definition cl_rhash_shrink :: "cl_rhash \<Rightarrow> cl_rhash option" where
  "cl_rhash_shrink hash =
     (case cl_rhash_table_clone (h_hi hash) (h_lo hash) of
        None \<Rightarrow> None
      | Some hi \<Rightarrow>
          (let lo = h_lo hash;
               lo = lo\<lparr>order := (order lo + 2 ^ 16 - 1) mod 2 ^ 16\<rparr>;
               lo = lo\<lparr>n_entries := 0\<rparr>;
               lo = lo\<lparr>n_peek := cl_rhash_table_size lo\<rparr>;
               lo = cl_rhash_table_alloc lo
           in Some (hash\<lparr>h_lo := lo, h_hi := hi\<rparr>)))"

definition cl_rhash_check_shrink :: "cl_rhash \<Rightarrow> cl_rhash option" where
  "cl_rhash_check_shrink hash =
     (if cl_rhash_should_shrink hash then cl_rhash_shrink hash else Some hash)"

definition cl_rhash_remove :: "memory \<Rightarrow> cl_rhash \<Rightarrow> ptr \<Rightarrow> (ptr \<times> cl_rhash) option" where
  "cl_rhash_remove m hash key =
     (let tent = (key, NULL);
          (pkey, lo) = cl_rhash_table_remove m (h_lo hash) tent;
          hash = hash\<lparr>h_lo := lo\<rparr>;
          (pkey, hash) =
            (if pkey = NULL
             then (let (pkey, hi) = cl_rhash_table_remove m (h_hi hash) tent
                   in (pkey, hash\<lparr>h_hi := hi\<rparr>))
             else (pkey, hash))
      in if pkey \<noteq> NULL
         then (case cl_rhash_check_move_lower m hash of
                 None \<Rightarrow> None
               | Some hash \<Rightarrow>
                   (case cl_rhash_check_shrink hash of
                      None \<Rightarrow> None
                    | Some hash \<Rightarrow> Some (pkey, cl_rhash_edit hash)))
         else Some (NULL, hash))"

definition cl_rhash_clear :: "cl_rhash \<Rightarrow> cl_rhash" where
  "cl_rhash_clear hash =
     (let hash = hash\<lparr>h_lo := cl_rhash_table_clear (h_lo hash)\<rparr>;
          hash = hash\<lparr>h_hi := cl_rhash_table_clear (h_hi hash)\<rparr>
      in cl_rhash_edit hash)"


section \<open>Iterator\<close>

datatype cl_rhash_table_num = CL_RHASH_TABLE_LO | CL_RHASH_TABLE_HI | CL_RHASH_TABLE_NONE

text \<open>
  The iterator points to its hash; here the hash is passed along with it.  \<open>it_n_edit\<close> is
  the edit version seen at creation.  \<open>n_slot\<close> is a \<^verbatim>\<open>uint32_t\<close>: creation stores
  \<open>n_peek - 1\<close>, which wraps when the peek slot is 0, and the first advance wraps back.
\<close>

record cl_rhash_iterator =
  n_table :: cl_rhash_table_num
  n_slot :: nat
  it_n_edit :: nat

definition cl_rhash_iterator_create :: "cl_rhash \<Rightarrow> cl_rhash_iterator" where
  "cl_rhash_iterator_create hash =
     \<lparr>n_table = CL_RHASH_TABLE_LO,
      n_slot = (n_peek (h_lo hash) + 2 ^ 32 - 1) mod 2 ^ 32,
      it_n_edit = n_edit hash\<rparr>"

definition cl_rhash_iterator_check :: "cl_rhash \<Rightarrow> cl_rhash_iterator \<Rightarrow> bool" where
  "cl_rhash_iterator_check hash it = (n_edit hash = it_n_edit it)"

definition cl_rhash_iterator_done :: "cl_rhash_iterator \<Rightarrow> bool" where
  "cl_rhash_iterator_done it = (n_table it = CL_RHASH_TABLE_NONE)"

definition cl_rhash_iterator_table :: "cl_rhash \<Rightarrow> cl_rhash_iterator \<Rightarrow> cl_rhash_table option" where
  "cl_rhash_iterator_table hash it =
     (case n_table it of
        CL_RHASH_TABLE_LO \<Rightarrow> Some (h_lo hash)
      | CL_RHASH_TABLE_HI \<Rightarrow> Some (h_hi hash)
      | CL_RHASH_TABLE_NONE \<Rightarrow> None)"

definition cl_rhash_iterator_table_done :: "cl_rhash \<Rightarrow> cl_rhash_iterator \<Rightarrow> bool" where
  "cl_rhash_iterator_table_done hash it =
     (case cl_rhash_iterator_table hash it of
        None \<Rightarrow> False
      | Some tbl \<Rightarrow> n_slot it \<ge> cl_rhash_table_size tbl)"

definition cl_rhash_iterator_next_table :: "cl_rhash \<Rightarrow> cl_rhash_iterator \<Rightarrow> cl_rhash_iterator" where
  "cl_rhash_iterator_next_table hash it =
     (if n_table it = CL_RHASH_TABLE_LO
      then it\<lparr>n_table := CL_RHASH_TABLE_HI, n_slot := n_peek (h_hi hash)\<rparr>
      else it\<lparr>n_table := CL_RHASH_TABLE_NONE, n_slot := 0\<rparr>)"

fun table_num_rank :: "cl_rhash_table_num \<Rightarrow> nat" where
  "table_num_rank CL_RHASH_TABLE_LO = 2"
| "table_num_rank CL_RHASH_TABLE_HI = 1"
| "table_num_rank CL_RHASH_TABLE_NONE = 0"

function cl_rhash_iterator_next_slot_loop :: "cl_rhash \<Rightarrow> cl_rhash_iterator \<Rightarrow> cl_rhash_iterator" where
  "cl_rhash_iterator_next_slot_loop hash it =
     (if cl_rhash_iterator_table_done hash it
      then cl_rhash_iterator_next_slot_loop hash (cl_rhash_iterator_next_table hash it)
      else it)"
  by pat_completeness auto
termination
  by (relation "measure (\<lambda>(hash, it). table_num_rank (n_table it))")
     (auto simp: cl_rhash_iterator_table_done_def cl_rhash_iterator_table_def
         cl_rhash_iterator_next_table_def split: cl_rhash_table_num.splits)

declare cl_rhash_iterator_next_slot_loop.simps [simp del]

definition cl_rhash_iterator_next_slot :: "cl_rhash \<Rightarrow> cl_rhash_iterator \<Rightarrow> cl_rhash_iterator" where
  "cl_rhash_iterator_next_slot hash it =
     cl_rhash_iterator_next_slot_loop hash (it\<lparr>n_slot := (n_slot it + 1) mod 2 ^ 32\<rparr>)"

definition cl_rhash_iterator_entry :: "cl_rhash \<Rightarrow> cl_rhash_iterator \<Rightarrow> entry option" where
  "cl_rhash_iterator_entry hash it =
     (case cl_rhash_iterator_table hash it of
        None \<Rightarrow> None
      | Some tbl \<Rightarrow>
          (let ent = cl_rhash_table_ptr tbl (n_slot it)
           in if cl_rhash_table_entry_exists ent then Some ent else None))"


section \<open>The hash function\<close>

lemma hash_step:
  "unat ((push_bit 5 (h::32 word) + h) + ucast (c::8 word)) = (unat h * 33 + unat c) mod 2 ^ 32"
proof -
  have "push_bit 5 h + h = h * 33" by (simp add: push_bit_eq_mult)
  moreover have "unat (ucast c :: 32 word) = unat c"
  proof -
    have "unat c < 2 ^ 8" using unsigned_less [of c] by simp
    then have "unat c < 2 ^ 32" by simp
    then show ?thesis by (simp add: unsigned_ucast_eq take_bit_nat_eq_self)
  qed
  ultimately show ?thesis by (simp add: unat_word_ariths mod_simps mult.commute)
qed

lemma hash_str_loop_fold:
  "unat (cl_rhash_table_hash_str_loop h bs) =
     fold (\<lambda>c n. (n * 33 + unat c) mod 2 ^ 32) (takeWhile (\<lambda>c. c \<noteq> 0) bs) (unat h)"
  by (induction bs arbitrary: h) (simp_all add: hash_step)

lemma hash_fixed_loop_fold:
  "unat (cl_rhash_table_hash_fixed_loop kb i h bs) =
     fold (\<lambda>c n. (n * 33 + unat c) mod 2 ^ 32) (take (kb - i) bs) (unat h)"
proof (induction bs arbitrary: h i)
  case Nil
  then show ?case by simp
next
  case (Cons c bs)
  show ?case
  proof (cases "i < kb")
    case True
    then have "kb - i = Suc (kb - (i + 1))" by simp
    then show ?thesis using True Cons.IH [of "i + 1"] by (simp add: hash_step)
  next
    case False
    then show ?thesis by simp
  qed
qed

text \<open>
  Claim C9.  The hash of a key is the fold \<open>h := (h * 33 + byte) mod 2^32\<close> from the seed
  5381: over the bytes before the terminating zero byte when \<open>key_bytes = 0\<close>, over the first
  \<open>key_bytes\<close> bytes otherwise.  The hash is a function of these bytes alone.
\<close>

theorem hash_is_fold:
  "cl_rhash_table_hash m tbl ent =
     fold (\<lambda>c n. (n * 33 + unat c) mod 2 ^ 32)
       (if key_bytes tbl = 0 then takeWhile (\<lambda>c. c \<noteq> 0) (m (fst ent))
        else take (key_bytes tbl) (m (fst ent)))
       5381"
  by (simp add: cl_rhash_table_hash_def cl_rhash_table_hash_str_def
      cl_rhash_table_hash_fixed_def hash_str_loop_fold hash_fixed_loop_fold)

end
